theory Spec2Isabelle
  imports Complex_Main
begin

section \<open>Numeric model\<close>

text \<open>
  The program works on NumPy arrays of floats whose first axis is the batch. No operation
  of the source mixes two rows of a batch, so the development models one batch instance:
  a row of a two-dimensional array is a \<open>real list\<close>, and an operation written in the
  source on columns (\<open>states[:, 0]\<close>) is here an operation on the entries of a row.

  Finite floats are modelled as real numbers, and arithmetic on finite values is exact
  (rounding and overflow are left out). The non-finite values that NumPy produces without
  raising, from a division by zero or the square root of a negative number, are explicit.
\<close>

datatype npfloat = Finite real | PosInf | NegInf | NaN

datatype error =
    IndexError
  | ValueError
  | AssertionError
  | ZeroDivisionError
  | NameError string

text \<open>\<open>x / y\<close> on arrays: a zero divisor gives an infinity of the sign of \<open>x\<close>, or nan for \<open>0 / 0\<close>.
  The zero divisors of this program are sums and differences, hence positive zeros.\<close>

definition np_divide :: "real \<Rightarrow> real \<Rightarrow> npfloat" where
  "np_divide x y =
     (if y = 0 then (if 0 < x then PosInf else if x < 0 then NegInf else NaN)
      else Finite (x / y))"

text \<open>\<open>np.sqrt\<close>: nan (and a warning) below zero.\<close>

definition np_sqrt :: "real \<Rightarrow> npfloat" where
  "np_sqrt x = (if x < 0 then NaN else Finite (sqrt x))"

fun np_arctan :: "npfloat \<Rightarrow> npfloat" where
  "np_arctan (Finite x) = Finite (arctan x)"
| "np_arctan PosInf = Finite (pi / 2)"
| "np_arctan NegInf = Finite (- (pi / 2))"
| "np_arctan NaN = NaN"

text \<open>A possibly non-finite value minus, or divided by, a finite one.\<close>

fun np_sub :: "npfloat \<Rightarrow> real \<Rightarrow> npfloat" where
  "np_sub (Finite x) s = Finite (x - s)"
| "np_sub PosInf s = PosInf"
| "np_sub NegInf s = NegInf"
| "np_sub NaN s = NaN"

fun np_quot :: "npfloat \<Rightarrow> real \<Rightarrow> npfloat" where
  "np_quot (Finite x) d = np_divide x d"
| "np_quot PosInf d = (if 0 \<le> d then PosInf else NegInf)"
| "np_quot NegInf d = (if 0 \<le> d then NegInf else PosInf)"
| "np_quot NaN d = NaN"

text \<open>\<open>np.clip(v, lo, hi)\<close> is \<open>minimum(maximum(v, lo), hi)\<close>; nan stays nan.\<close>

fun np_clip :: "npfloat \<Rightarrow> real \<Rightarrow> real \<Rightarrow> npfloat" where
  "np_clip (Finite x) lo hi = Finite (min (max x lo) hi)"
| "np_clip PosInf lo hi = Finite hi"
| "np_clip NegInf lo hi = Finite (min lo hi)"
| "np_clip NaN lo hi = NaN"

text \<open>Elementwise arithmetic of two rows, with NumPy's broadcasting along the row: equal
  widths pair up, a width of one is stretched, any other pair of widths raises.\<close>

definition np_broadcast2 ::
  "(real \<Rightarrow> real \<Rightarrow> real) \<Rightarrow> real list \<Rightarrow> real list \<Rightarrow> error + real list" where
  "np_broadcast2 f xs ys =
     (if length xs = length ys then Inr (map2 f xs ys)
      else if length xs = 1 then Inr (map (f (hd xs)) ys)
      else if length ys = 1 then Inr (map (\<lambda>x. f x (hd ys)) xs)
      else Inl ValueError)"


section \<open>VehicleDynamics\<close>

text \<open>The entries of \<open>vehicle_params\<close>. The keys \<open>a\<close>, \<open>b\<close> and \<open>g\<close> of the source are
  named \<open>a_cg\<close>, \<open>b_cg\<close> and \<open>g_acc\<close> here.\<close>

definition C_f :: real where "C_f = - 128915.5"
definition C_r :: real where "C_r = - 85943.6"
definition a_cg :: real where "a_cg = 1.06"
definition b_cg :: real where "b_cg = 1.85"
definition mass :: real where "mass = 1412"
definition I_z :: real where "I_z = 1536.7"
definition miu :: real where "miu = 1.0"
definition g_acc :: real where "g_acc = 9.81"

definition F_zf :: real where "F_zf = b_cg * mass * g_acc / (a_cg + b_cg)"
definition F_zr :: real where "F_zr = a_cg * mass * g_acc / (a_cg + b_cg)"

text \<open>The longitudinal forces of the two axles, \<open>np.where(a_x < 0, ..., ...)\<close>.\<close>

definition F_xf :: "real \<Rightarrow> real" where
  "F_xf a_x = (if a_x < 0 then mass * a_x / 2 else 0)"

definition F_xr :: "real \<Rightarrow> real" where
  "F_xr a_x = (if a_x < 0 then mass * a_x / 2 else mass * a_x)"

definition miu_f :: "real \<Rightarrow> npfloat" where
  "miu_f a_x = np_quot (np_sqrt ((miu * F_zf)\<^sup>2 - (F_xf a_x)\<^sup>2)) F_zf"

definition miu_r :: "real \<Rightarrow> npfloat" where
  "miu_r a_x = np_quot (np_sqrt ((miu * F_zr)\<^sup>2 - (F_xr a_x)\<^sup>2)) F_zr"

text \<open>\<open>f_xu\<close> on one row of states and one row of actions. Reading a column the row does not
  have raises IndexError. The result is the row of the next state and the row
  \<open>[alpha_f, alpha_r, miu_f, miu_r]\<close>.\<close>

definition f_xu :: "real list \<Rightarrow> real list \<Rightarrow> real \<Rightarrow> error + (npfloat list \<times> npfloat list)" where
  "f_xu states actions tau =
     (if length states < 6 \<or> length actions < 2 then Inl IndexError
      else
        let v_x = states ! 0; v_y = states ! 1; r = states ! 2;
            x = states ! 3; y = states ! 4; phi = states ! 5;
            phi = phi * pi / 180;
            steer = actions ! 0; a_x = actions ! 1;
            alpha_f = np_sub (np_arctan (np_divide (v_y + a_cg * r) (v_x + 1 / 10 ^ 8))) steer;
            alpha_r = np_arctan (np_divide (v_y - b_cg * r) (v_x + 1 / 10 ^ 8));
            next_state =
              [Finite (v_x + tau * (a_x + v_y * r)),
               np_divide
                 (mass * v_y * v_x + tau * (a_cg * C_f - b_cg * C_r) * r
                    - tau * C_f * steer * v_x - tau * mass * v_x\<^sup>2 * r)
                 (mass * v_x - tau * (C_f + C_r)),
               np_divide
                 (- I_z * r * v_x - tau * (a_cg * C_f - b_cg * C_r) * v_y
                    + tau * a_cg * C_f * steer * v_x)
                 (tau * (a_cg\<^sup>2 * C_f + b_cg\<^sup>2 * C_r) - I_z * v_x),
               Finite (x + tau * (v_x * cos phi - v_y * sin phi)),
               Finite (y + tau * (v_x * sin phi + v_y * cos phi)),
               Finite ((phi + tau * r) * 180 / pi)]
        in Inr (next_state, [alpha_f, alpha_r, miu_f a_x, miu_r a_x]))"

definition prediction ::
  "real list \<Rightarrow> real list \<Rightarrow> real \<Rightarrow> error + (npfloat list \<times> npfloat list)" where
  "prediction x_1 u_1 frequency =
     (if frequency = 0 then Inl ZeroDivisionError else f_xu x_1 u_1 (1 / frequency))"


section \<open>EnvironmentModel\<close>

text \<open>The constants that the module imports from \<open>endtoend_env_utils\<close> are parameters of the
  model: the vehicle's length and width, the size of the crossing, the lane width and the
  number of lanes.\<close>

record env_utils =
  L :: real
  W :: real
  CROSSROAD_SIZE :: real
  LANE_WIDTH :: real
  LANE_NUMBER :: nat

definition base_frequency :: real where "base_frequency = 10"
definition ego_info_dim :: nat where "ego_info_dim = 6"
definition per_veh_info_dim :: nat where "per_veh_info_dim = 4"
definition per_tracking_info_dim :: nat where "per_tracking_info_dim = 3"

text \<open>The three slices \<open>ego_infos, tracking_infos, veh_infos\<close> that every method takes of an
  observation row; \<open>num_future_data\<close> is a natural number here.\<close>

definition split_obses :: "nat \<Rightarrow> real list \<Rightarrow> real list \<times> real list \<times> real list" where
  "split_obses num_future_data obses =
     (take ego_info_dim obses,
      take (per_tracking_info_dim * (num_future_data + 1)) (drop ego_info_dim obses),
      drop (ego_info_dim + per_tracking_info_dim * (num_future_data + 1)) obses)"

text \<open>\<open>np.tile(np.stack([ego_x, ego_y, 0, 0], 1), (1, n))\<close> on one row.\<close>

definition ego_tile :: "real \<Rightarrow> real \<Rightarrow> nat \<Rightarrow> real list" where
  "ego_tile ego_x ego_y n = concat (replicate n [ego_x, ego_y, 0, 0])"

definition convert_vehs_to_rela :: "nat \<Rightarrow> real list \<Rightarrow> error + real list" where
  "convert_vehs_to_rela num_future_data obs_abso =
     (case split_obses num_future_data obs_abso of (ego_infos, tracking_infos, veh_infos) \<Rightarrow>
        if length ego_infos < 5 then Inl IndexError
        else
          let ego_x = ego_infos ! 3; ego_y = ego_infos ! 4;
              ego = ego_tile ego_x ego_y (length veh_infos div per_veh_info_dim)
          in (case np_broadcast2 (\<lambda>v e. v - e) veh_infos ego of
                Inl e \<Rightarrow> Inl e
              | Inr vehs_rela \<Rightarrow> Inr (ego_infos @ tracking_infos @ vehs_rela)))"

definition convert_vehs_to_abso :: "nat \<Rightarrow> real list \<Rightarrow> error + real list" where
  "convert_vehs_to_abso num_future_data obs_rela =
     (case split_obses num_future_data obs_rela of (ego_infos, tracking_infos, veh_rela) \<Rightarrow>
        if length ego_infos < 5 then Inl IndexError
        else
          let ego_x = ego_infos ! 3; ego_y = ego_infos ! 4;
              ego = ego_tile ego_x ego_y (length veh_rela div per_veh_info_dim)
          in (case np_broadcast2 (\<lambda>v e. v + e) veh_rela ego of
                Inl e \<Rightarrow> Inl e
              | Inr vehs_abso \<Rightarrow> Inr (ego_infos @ tracking_infos @ vehs_abso)))"

definition ego_predict :: "real list \<Rightarrow> real list \<Rightarrow> error + npfloat list" where
  "ego_predict ego_infos actions =
     (case prediction (take 6 ego_infos) actions base_frequency of
        Inl e \<Rightarrow> Inl e
      | Inr (ego_next_infos, _) \<Rightarrow>
          let v_xs = ego_next_infos ! 0; v_ys = ego_next_infos ! 1; rs = ego_next_infos ! 2;
              xs = ego_next_infos ! 3; ys = ego_next_infos ! 4; phis = ego_next_infos ! 5;
              v_xs = np_clip v_xs 0 35
          in Inr [v_xs, v_ys, rs, xs, ys, phis])"

subsection \<open>compute_rewards\<close>

text \<open>The bumper points \<open>(x \<plusminus> lws cos phi, y \<plusminus> lws sin phi)\<close>, the heading in degrees.\<close>

definition front_points :: "real \<Rightarrow> real \<Rightarrow> real \<Rightarrow> real \<Rightarrow> real \<times> real" where
  "front_points lws x y phi = (x + lws * cos (phi * pi / 180), y + lws * sin (phi * pi / 180))"

definition rear_points :: "real \<Rightarrow> real \<Rightarrow> real \<Rightarrow> real \<Rightarrow> real \<times> real" where
  "rear_points lws x y phi = (x - lws * cos (phi * pi / 180), y - lws * sin (phi * pi / 180))"

text \<open>The body of the innermost loop over \<open>(ego_point, veh_point)\<close>: the two accumulators
  \<open>(veh2veh4training, veh2veh4real)\<close> grow by a function of \<open>veh2veh_dist\<close> alone.\<close>

definition veh2veh_pair :: "real \<Rightarrow> real \<times> real \<Rightarrow> real \<times> real" where
  "veh2veh_pair veh2veh_dist acc =
     (case acc of (veh2veh4training, veh2veh4real) \<Rightarrow>
        (veh2veh4training + (if veh2veh_dist - 3.5 < 0 then (veh2veh_dist - 3.5)\<^sup>2 else 0),
         veh2veh4real + (if veh2veh_dist - 2.5 < 0 then veh2veh_dist - 2.5 else 0)))"

text \<open>The loop over \<open>veh_index\<close>. The source computes the bumper points of the vehicle and
  walks the four pairs of points, and the update never reads the points: \<open>veh2veh_dist\<close> is
  the array of zeros it was initialised to.\<close>

fun veh2veh_loop ::
  "env_utils \<Rightarrow> (real \<times> real) list \<Rightarrow> real \<Rightarrow> real list \<Rightarrow> nat list \<Rightarrow> real \<times> real
     \<Rightarrow> error + (real \<times> real)" where
  "veh2veh_loop c ego_points veh2veh_dist veh_infos [] acc = Inr acc"
| "veh2veh_loop c ego_points veh2veh_dist veh_infos (veh_index # rest) acc =
     (let vehs = take per_veh_info_dim (drop (veh_index * per_veh_info_dim) veh_infos)
      in if length vehs < 4 then Inl IndexError
         else
           let veh_lws = (L c - W c) / 2;
               veh_front_points = front_points veh_lws (vehs ! 0) (vehs ! 1) (vehs ! 3);
               veh_rear_points = rear_points veh_lws (vehs ! 0) (vehs ! 1) (vehs ! 3);
               acc = foldl (\<lambda>acc ego_point.
                        foldl (\<lambda>acc veh_point. veh2veh_pair veh2veh_dist acc) acc
                          [veh_front_points, veh_rear_points])
                      acc ego_points
           in veh2veh_loop c ego_points veh2veh_dist veh_infos rest acc)"

text \<open>The road terms of one ego point, per task: the accumulators are
  \<open>(veh2road4training, veh2road4real)\<close>.\<close>

definition sq_if :: "bool \<Rightarrow> real \<Rightarrow> real" where
  "sq_if cond v = (if cond then v\<^sup>2 else 0)"

definition veh2road_left :: "env_utils \<Rightarrow> real \<times> real \<Rightarrow> real \<times> real \<Rightarrow> real \<times> real" where
  "veh2road_left c acc ego_point =
     (case acc of (trn, rl) \<Rightarrow> case ego_point of (p0, p1) \<Rightarrow>
        (trn
           + sq_if (p1 < - CROSSROAD_SIZE c / 2 \<and> p0 < 1) (p0 - 1)
           + sq_if (p1 < - CROSSROAD_SIZE c / 2 \<and> LANE_WIDTH c - p0 < 1) (LANE_WIDTH c - p0 - 1)
           + sq_if (p0 < 0 \<and> LANE_WIDTH c * real (LANE_NUMBER c) - p1 < 1)
               (LANE_WIDTH c * real (LANE_NUMBER c) - p1 - 1)
           + sq_if (p0 < - CROSSROAD_SIZE c / 2 \<and> p1 - 0 < 1) (p1 - 0 - 1),
         rl
           + sq_if (p1 < - CROSSROAD_SIZE c / 2 \<and> p0 < 1) (p0 - 1)
           + sq_if (p1 < - CROSSROAD_SIZE c / 2 \<and> LANE_WIDTH c - p0 < 1) (LANE_WIDTH c - p0 - 1)
           + sq_if (p0 < - CROSSROAD_SIZE c / 2 \<and> LANE_WIDTH c * real (LANE_NUMBER c) - p1 < 1)
               (LANE_WIDTH c * real (LANE_NUMBER c) - p1 - 1)
           + sq_if (p0 < - CROSSROAD_SIZE c / 2 \<and> p1 - 0 < 1) (p1 - 0 - 1)))"

definition veh2road_straight :: "env_utils \<Rightarrow> real \<times> real \<Rightarrow> real \<times> real \<Rightarrow> real \<times> real" where
  "veh2road_straight c acc ego_point =
     (case acc of (trn, rl) \<Rightarrow> case ego_point of (p0, p1) \<Rightarrow>
        (trn
           + sq_if (p1 < - CROSSROAD_SIZE c / 2 \<and> p0 - LANE_WIDTH c < 1) (p0 - LANE_WIDTH c - 1)
           + sq_if (p1 < - CROSSROAD_SIZE c / 2 \<and> 2 * LANE_WIDTH c - p0 < 1)
               (2 * LANE_WIDTH c - p0 - 1)
           + sq_if (p1 > CROSSROAD_SIZE c / 2 \<and> LANE_WIDTH c * real (LANE_NUMBER c) - p0 < 1)
               (LANE_WIDTH c * real (LANE_NUMBER c) - p0 - 1)
           + sq_if (p1 > CROSSROAD_SIZE c / 2 \<and> p0 - 0 < 1) (p0 - 0 - 1),
         rl
           + sq_if (p1 < - CROSSROAD_SIZE c / 2 \<and> p0 - LANE_WIDTH c < 1) (p0 - LANE_WIDTH c - 1)
           + sq_if (p1 < - CROSSROAD_SIZE c / 2 \<and> 2 * LANE_WIDTH c - p0 < 1)
               (2 * LANE_WIDTH c - p0 - 1)
           + sq_if (p1 > CROSSROAD_SIZE c / 2 \<and> LANE_WIDTH c * real (LANE_NUMBER c) - p0 < 1)
               (LANE_WIDTH c * real (LANE_NUMBER c) - p0 - 1)
           + sq_if (p1 > CROSSROAD_SIZE c / 2 \<and> p0 - 0 < 1) (p0 - 0 - 1)))"

definition veh2road_right :: "env_utils \<Rightarrow> real \<times> real \<Rightarrow> real \<times> real \<Rightarrow> real \<times> real" where
  "veh2road_right c acc ego_point =
     (case acc of (trn, rl) \<Rightarrow> case ego_point of (p0, p1) \<Rightarrow>
        (trn
           + sq_if (p1 < - CROSSROAD_SIZE c / 2 \<and> p0 - 2 * LANE_WIDTH c < 1)
               (p0 - 2 * LANE_WIDTH c - 1)
           + sq_if (p1 < - CROSSROAD_SIZE c / 2 \<and> real (LANE_NUMBER c) * LANE_WIDTH c - p0 < 1)
               (real (LANE_NUMBER c) * LANE_WIDTH c - p0 - 1)
           + sq_if (p0 > CROSSROAD_SIZE c / 2 \<and> 0 - p1 < 1) (0 - p1 - 1)
           + sq_if (p0 > CROSSROAD_SIZE c / 2 \<and> p1 - (- LANE_WIDTH c * real (LANE_NUMBER c)) < 1)
               (p1 - (- LANE_WIDTH c * real (LANE_NUMBER c)) - 1),
         rl
           + sq_if (p1 < - CROSSROAD_SIZE c / 2 \<and> p0 - 2 * LANE_WIDTH c < 1)
               (p0 - 2 * LANE_WIDTH c - 1)
           + sq_if (p1 < - CROSSROAD_SIZE c / 2 \<and> real (LANE_NUMBER c) * LANE_WIDTH c - p0 < 1)
               (real (LANE_NUMBER c) * LANE_WIDTH c - p0 - 1)
           + sq_if (p0 > CROSSROAD_SIZE c / 2 \<and> 0 - p1 < 1) (0 - p1 - 1)
           + sq_if (p0 > CROSSROAD_SIZE c / 2 \<and> p1 - (- LANE_WIDTH c * real (LANE_NUMBER c)) < 1)
               (p1 - (- LANE_WIDTH c * real (LANE_NUMBER c)) - 1)))"

definition veh2road :: "string \<Rightarrow> env_utils \<Rightarrow> (real \<times> real) list \<Rightarrow> error + (real \<times> real)" where
  "veh2road task c ego_points =
     (if task = ''left'' then Inr (foldl (veh2road_left c) (0, 0) ego_points)
      else if task = ''straight'' then Inr (foldl (veh2road_straight c) (0, 0) ego_points)
      else if task = ''right'' then Inr (foldl (veh2road_right c) (0, 0) ego_points)
      else Inl AssertionError)"

text \<open>The five values that \<open>compute_rewards\<close> returns, under the names of the variables it
  returns; inside the function the four penalty sums are \<open>v2v4training\<close>, \<open>v2v4real\<close>,
  \<open>v2r4training\<close> and \<open>v2r4real\<close>.\<close>

record reward_out =
  rewards :: real
  punish_term_for_training :: real
  real_punish_term :: real
  veh2veh4real :: real
  veh2road4real :: real

definition compute_rewards ::
  "string \<Rightarrow> nat \<Rightarrow> env_utils \<Rightarrow> real list \<Rightarrow> real list \<Rightarrow> error + reward_out" where
  "compute_rewards task num_future_data c obses actions =
     (case convert_vehs_to_abso num_future_data obses of
        Inl e \<Rightarrow> Inl e
      | Inr obses \<Rightarrow>
         (case split_obses num_future_data obses of (ego_infos, tracking_infos, veh_infos) \<Rightarrow>
            if length actions < 2 \<or> length ego_infos < 6 \<or> length tracking_infos < 3
               \<or> length veh_infos < 1
            then Inl IndexError
            else
              let steers = actions ! 0; a_xs = actions ! 1;
                  punish_steer = - (steers\<^sup>2);
                  punish_a_x = - (a_xs\<^sup>2);
                  punish_yaw_rate = - ((ego_infos ! 2)\<^sup>2);
                  devi_y = - ((tracking_infos ! 0)\<^sup>2);
                  devi_phi = - ((tracking_infos ! 1 * pi / 180)\<^sup>2);
                  devi_v = - ((tracking_infos ! 2)\<^sup>2);
                  ego_lws = (L c - W c) / 2;
                  ego_front_points =
                    front_points ego_lws (ego_infos ! 3) (ego_infos ! 4) (ego_infos ! 5);
                  ego_rear_points =
                    rear_points ego_lws (ego_infos ! 3) (ego_infos ! 4) (ego_infos ! 5);
                  veh_nums = length veh_infos div per_veh_info_dim;
                  veh2veh_dist = 0
              in (case veh2veh_loop c [ego_front_points, ego_rear_points] veh2veh_dist veh_infos
                        [0..<veh_nums] (0, 0) of
                   Inl e \<Rightarrow> Inl e
                 | Inr (v2v4training, v2v4real) \<Rightarrow>
                    (case veh2road task c [ego_front_points, ego_rear_points] of
                       Inl e \<Rightarrow> Inl e
                     | Inr (v2r4training, v2r4real) \<Rightarrow>
                         Inr \<lparr>rewards = 0.05 * devi_v + 0.8 * devi_y + 30 * devi_phi
                                  + 0.02 * punish_yaw_rate + 5 * punish_steer + 0.05 * punish_a_x,
                              punish_term_for_training = v2v4training + v2r4training,
                              real_punish_term = v2v4real + v2r4real,
                              veh2veh4real = v2v4real,
                              veh2road4real = v2r4real\<rparr>))))"


subsection \<open>Construction\<close>

text \<open>\<open>__init__\<close> reads names: its parameters, then the names the module binds (imports,
  classes and functions; no built-in is called \<open>rewards_mode\<close>). A name that is bound
  nowhere raises NameError. The object under construction is the list of its attributes,
  and the constructor of \<open>ReferencePath\<close>, which needs the Bezier library, is a parameter.\<close>

datatype pyval = PyNone | PyStr string | PyInt int | PyFloat real | PyObj string

definition module_names :: "string list" where
  "module_names =
     [''pi'', ''cos'', ''sin'', ''bezier'', ''plt'', ''np'', ''logical_and'',
      ''rotate_coordination'', ''L'', ''W'', ''CROSSROAD_SIZE'', ''LANE_WIDTH'', ''LANE_NUMBER'',
      ''VEHICLE_MODE_LIST'', ''VehicleDynamics'', ''EnvironmentModel'', ''deal_with_phi_diff'',
      ''ReferencePath'', ''test_ref_path'', ''test_future_n_data'',
      ''test_tracking_error_vector'', ''test_model'', ''test_tf_function'', ''test_tffunc'',
      ''test_ref'']"

definition load_name :: "(string \<times> pyval) list \<Rightarrow> string \<Rightarrow> error + pyval" where
  "load_name scope nm = (case map_of scope nm of None \<Rightarrow> Inl (NameError nm) | Some v \<Rightarrow> Inr v)"

definition bind_err :: "error + 'a \<Rightarrow> ('a \<Rightarrow> error + 'b) \<Rightarrow> error + 'b" where
  "bind_err m f = (case m of Inl e \<Rightarrow> Inl e | Inr v \<Rightarrow> f v)"

definition EnvironmentModel_init ::
  "string \<Rightarrow> int \<Rightarrow> string \<Rightarrow> (string \<Rightarrow> error + pyval) \<Rightarrow> error + (string \<times> pyval) list" where
  "EnvironmentModel_init task num_future_data costs_mode ReferencePath_new =
     (let scope = [(''task'', PyStr task), (''num_future_data'', PyInt num_future_data),
                   (''costs_mode'', PyStr costs_mode)]
                  @ map (\<lambda>n. (n, PyObj n)) module_names
      in bind_err (load_name scope ''task'') (\<lambda>v_task.
         bind_err (load_name scope ''VehicleDynamics'') (\<lambda>v_dynamics.
         bind_err (load_name scope ''ReferencePath'') (\<lambda>v_class.
         bind_err (ReferencePath_new task) (\<lambda>v_ref_path.
         bind_err (load_name scope ''num_future_data'') (\<lambda>v_num_future_data.
         bind_err (load_name scope ''rewards_mode'') (\<lambda>v_rewards_mode.
           Inr [(''task'', v_task), (''mode'', PyNone), (''vehicle_dynamics'', v_dynamics),
                (''base_frequency'', PyFloat 10), (''obses'', PyNone), (''ego_params'', PyNone),
                (''actions'', PyNone), (''ref_path'', v_ref_path), (''ref_indexes'', PyNone),
                (''num_future_data'', v_num_future_data), (''exp_v'', PyFloat 8),
                (''reward_info'', PyNone), (''ego_info_dim'', PyInt 6),
                (''per_veh_info_dim'', PyInt 4), (''per_veh_cstr_dim'', PyInt 4),
                (''per_tracking_info_dim'', PyInt 3), (''rewards_mode'', v_rewards_mode),
                (''veh2veh_dists_last'', PyNone)])))))))"


section \<open>ReferencePath\<close>

definition deal_with_phi_diff :: "real \<Rightarrow> real" where
  "deal_with_phi_diff phi_diff =
     (let phi_diff = (if phi_diff > 180 then phi_diff - 360 else phi_diff);
          phi_diff = (if phi_diff < - 180 then phi_diff + 360 else phi_diff)
      in phi_diff)"

text \<open>A path is the triple of arrays \<open>(xs, ys, phis)\<close>. An array is read at an integer as
  NumPy reads it: a negative index counts from the end, and an index outside raises.\<close>

type_synonym path = "real list \<times> real list \<times> real list"

definition np_getitem :: "real list \<Rightarrow> int \<Rightarrow> error + real" where
  "np_getitem arr i =
     (let n = int (length arr); j = (if i < 0 then i + n else i)
      in if 0 \<le> j \<and> j < n then Inr (arr ! nat j) else Inl IndexError)"

definition indexs2points :: "path \<Rightarrow> int \<Rightarrow> error + (real \<times> real \<times> real)" where
  "indexs2points path indexs =
     (case path of (path0, path1, path2) \<Rightarrow>
        let indexs = (if indexs \<ge> 0 then indexs else 0);
            indexs = (if indexs < int (length path0) then indexs else int (length path0) - 1)
        in bind_err (np_getitem path0 indexs) (\<lambda>p0.
           bind_err (np_getitem path1 indexs) (\<lambda>p1.
           bind_err (np_getitem path2 indexs) (\<lambda>p2. Inr (p0, p1, p2)))))"

text \<open>The loop of \<open>future_n_data\<close>, the list it appends to being built front first.\<close>

fun future_loop :: "path \<Rightarrow> int \<Rightarrow> nat \<Rightarrow> error + (real \<times> real \<times> real) list" where
  "future_loop path current_indexs 0 = Inr []"
| "future_loop path current_indexs (Suc k) =
     (let current_indexs = current_indexs + 80;
          current_indexs =
            (if current_indexs \<ge> int (length (fst path)) - 2 then int (length (fst path)) - 2
             else current_indexs)
      in bind_err (indexs2points path current_indexs) (\<lambda>p.
         bind_err (future_loop path current_indexs k) (\<lambda>ps. Inr (p # ps))))"

text \<open>\<open>range(n)\<close> is empty for a negative \<open>n\<close>.\<close>

definition future_n_data :: "path \<Rightarrow> int \<Rightarrow> int \<Rightarrow> error + (real \<times> real \<times> real) list" where
  "future_n_data path current_indexs n = future_loop path current_indexs (nat n)"


text \<open>The sample of a path at a position, for stating what the look-ahead returns.\<close>

definition point_at :: "path \<Rightarrow> nat \<Rightarrow> real \<times> real \<times> real" where
  "point_at path i = (case path of (path0, path1, path2) \<Rightarrow> (path0 ! i, path1 ! i, path2 ! i))"

text \<open>Values for the imported constants, to run the model on concrete rows: a vehicle of
  4.8 m by 2 m, a crossing of 50 m, three lanes of 3.75 m.\<close>

definition utils_example :: env_utils where
  "utils_example =
     \<lparr>L = 4.8, W = 2, CROSSROAD_SIZE = 50, LANE_WIDTH = 3.75, LANE_NUMBER = 3\<rparr>"


section \<open>Properties of VehicleDynamics\<close>

lemma F_zf_pos: "0 < F_zf"
  by (simp add: F_zf_def a_cg_def b_cg_def mass_def g_acc_def)

lemma F_zr_pos: "0 < F_zr"
  by (simp add: F_zr_def a_cg_def b_cg_def mass_def g_acc_def)

text \<open>
  Claim C5. In \<open>f_xu\<close>, a negative commanded acceleration gives equal front and rear
  longitudinal forces, each \<open>mass * a_x / 2\<close>; a non-negative one gives a front force of 0
  and a rear force of \<open>mass * a_x\<close>.
\<close>

theorem f_xu_force_split:
  "(a_x < 0 \<longrightarrow> F_xf a_x = mass * a_x / 2 \<and> F_xr a_x = mass * a_x / 2)
   \<and> (0 \<le> a_x \<longrightarrow> F_xf a_x = 0 \<and> F_xr a_x = mass * a_x)"
  by (simp add: F_xf_def F_xr_def)

theorem f_xu_force_split_witness:
  "F_xf (- 2) = mass * (- 2) / 2 \<and> F_xr (- 2) = mass * (- 2) / 2
   \<and> F_xf 3 = 0 \<and> F_xr 3 = mass * 3"
  using f_xu_force_split [of "- 2"] f_xu_force_split [of 3] by simp

text \<open>The two friction coefficients by cases: inside the friction circle the quotient of the
  specification, outside it nan. The square root is taken of the difference itself.\<close>

lemma miu_f_cases:
  "miu_f a_x =
     (if (F_xf a_x)\<^sup>2 \<le> (miu * F_zf)\<^sup>2
      then Finite (sqrt (max 0 ((miu * F_zf)\<^sup>2 - (F_xf a_x)\<^sup>2)) / F_zf) else NaN)"
  using F_zf_pos by (simp add: miu_f_def np_sqrt_def np_divide_def max_def)

lemma miu_r_cases:
  "miu_r a_x =
     (if (F_xr a_x)\<^sup>2 \<le> (miu * F_zr)\<^sup>2
      then Finite (sqrt (max 0 ((miu * F_zr)\<^sup>2 - (F_xr a_x)\<^sup>2)) / F_zr) else NaN)"
  using F_zr_pos by (simp add: miu_r_def np_sqrt_def np_divide_def max_def)

text \<open>
  Claim C6, as stated, fails: with a commanded acceleration of 20 the rear longitudinal force
  exceeds \<open>miu * F_zr\<close>, the square root is taken of a negative number, and the rear
  coefficient that \<open>f_xu\<close> returns is nan, where the clamped formula gives 0.
\<close>

theorem f_xu_friction_coefficients_counterexample:
  "(\<exists>next_state alpha_f alpha_r miu_f'.
      f_xu [8, 0, 0, 0, 0, 0] [0, 20] (1 / 10) =
        Inr (next_state, [alpha_f, alpha_r, miu_f', NaN]))
   \<and> Finite (sqrt (max 0 ((miu * F_zr)\<^sup>2 - (F_xr 20)\<^sup>2)) / F_zr) = Finite 0"
proof -
  have neg: "(miu * F_zr)\<^sup>2 - (F_xr 20)\<^sup>2 < 0"
    by (simp add: miu_def F_zr_def F_xr_def a_cg_def b_cg_def mass_def g_acc_def power2_eq_square)
  have "miu_r 20 = NaN"
    using neg by (simp add: miu_r_def np_sqrt_def)
  moreover have "max 0 ((miu * F_zr)\<^sup>2 - (F_xr 20)\<^sup>2) = 0"
    using neg by (simp add: max_def)
  ultimately show ?thesis
    by (simp add: f_xu_def Let_def)
qed

text \<open>
  Claim C6, amended. For every row of states with its six columns and every row of actions
  with its two, \<open>f_xu\<close> returns, and the friction coefficient of each axle is
  \<open>sqrt (max 0 ((miu * F_z)\<^sup>2 - F_x\<^sup>2)) / F_z\<close> whenever \<open>F_x\<^sup>2 \<le> (miu * F_z)\<^sup>2\<close>; the argument of the
  square root is not clamped, and the coefficient is nan when \<open>F_x\<^sup>2\<close> is larger.
\<close>

theorem f_xu_friction_coefficients:
  assumes "6 \<le> length states" and "2 \<le> length actions"
  shows "\<exists>next_state alpha_f alpha_r.
           f_xu states actions tau =
             Inr (next_state,
               [alpha_f, alpha_r,
                if (F_xf (actions ! 1))\<^sup>2 \<le> (miu * F_zf)\<^sup>2
                then Finite (sqrt (max 0 ((miu * F_zf)\<^sup>2 - (F_xf (actions ! 1))\<^sup>2)) / F_zf)
                else NaN,
                if (F_xr (actions ! 1))\<^sup>2 \<le> (miu * F_zr)\<^sup>2
                then Finite (sqrt (max 0 ((miu * F_zr)\<^sup>2 - (F_xr (actions ! 1))\<^sup>2)) / F_zr)
                else NaN])"
  using assms by (simp add: f_xu_def Let_def miu_f_cases miu_r_cases)

theorem f_xu_friction_coefficients_witness:
  "\<exists>next_state alpha_f alpha_r.
     f_xu [8, 0, 0, 0, 0, 0] [0, 0] (1 / 10) =
       Inr (next_state, [alpha_f, alpha_r, Finite miu, Finite miu])"
  using f_xu_friction_coefficients [of "[8, 0, 0, 0, 0, 0]" "[0, 0]" "1 / 10"]
    F_zf_pos F_zr_pos
  by (simp add: F_xf_def F_xr_def miu_def)

text \<open>
  Claim C7. From a state with zero lateral velocity and zero yaw rate, one step of \<open>f_xu\<close>
  with zero steering and zero acceleration moves the position by \<open>v_x * tau\<close> along the
  heading, \<open>x + v_x * tau * cos phi\<close> and \<open>y + v_x * tau * sin phi\<close> for the heading \<open>phi\<close> in
  degrees, and returns the heading it was given.
\<close>

theorem f_xu_straight_step:
  assumes "6 \<le> length states" and "2 \<le> length actions"
    and "states ! 1 = 0" and "states ! 2 = 0" and "states ! 0 \<noteq> 0"
    and "actions ! 0 = 0" and "actions ! 1 = 0"
  shows "\<exists>next_state diag. f_xu states actions tau = Inr (next_state, diag)
           \<and> next_state ! 3 = Finite (states ! 3 + states ! 0 * tau * cos (states ! 5 * pi / 180))
           \<and> next_state ! 4 = Finite (states ! 4 + states ! 0 * tau * sin (states ! 5 * pi / 180))
           \<and> next_state ! 5 = Finite (states ! 5)"
  using assms by (simp add: f_xu_def Let_def algebra_simps)

theorem f_xu_straight_step_witness:
  "\<exists>next_state diag. f_xu [8, 0, 0, 1, 2, 0] [0, 0] (1 / 10) = Inr (next_state, diag)
           \<and> next_state ! 3 = Finite (9 / 5)
           \<and> next_state ! 4 = Finite 2
           \<and> next_state ! 5 = Finite 0"
  using f_xu_straight_step [of "[8, 0, 0, 1, 2, 0]" "[0, 0]" "1 / 10"] by simp


section \<open>Properties of EnvironmentModel\<close>

text \<open>
  Claim C9. For every row of ego states with its six columns and every row of de-normalised
  actions with its two, \<open>ego_predict\<close> returns a next state whose longitudinal velocity lies
  in \<open>[0, 35]\<close>: it is the velocity of one \<open>f_xu\<close> step of \<open>1 / 10\<close> s, clipped.
\<close>

theorem ego_predict_v_x_range:
  assumes "6 \<le> length ego_infos" and "2 \<le> length actions"
  shows "\<exists>v rest. ego_predict ego_infos actions = Inr (Finite v # rest)
           \<and> 0 \<le> v \<and> v \<le> 35
           \<and> v = min (max (ego_infos ! 0
                    + 1 / 10 * (actions ! 1 + ego_infos ! 1 * ego_infos ! 2)) 0) 35"
  using assms
  by (simp add: ego_predict_def prediction_def base_frequency_def f_xu_def Let_def)

theorem ego_predict_v_x_range_witness:
  "\<exists>v rest. ego_predict [40, 1, 2, 0, 0, 90] [0, 3] = Inr (Finite v # rest)
           \<and> 0 \<le> v \<and> v \<le> 35 \<and> v = 35"
  using ego_predict_v_x_range [of "[40, 1, 2, 0, 0, 90]" "[0, 3]"] by simp


subsection \<open>Construction\<close>

lemma EnvironmentModel_init_NameError:
  "EnvironmentModel_init task num_future_data costs_mode ReferencePath_new =
     (case ReferencePath_new task of Inl e \<Rightarrow> Inl e | Inr v \<Rightarrow> Inl (NameError ''rewards_mode''))"
  by (simp add: EnvironmentModel_init_def load_name_def bind_err_def module_names_def
      split: sum.splits)

text \<open>
  Claim C2 says that constructing an EnvironmentModel for a valid task, then \<open>reset\<close> and
  \<open>rollout_out\<close>, raises nothing. The constructor itself raises: for the task \<open>left\<close>, the
  default arguments and a \<open>ReferencePath\<close> that is built without error, \<open>__init__\<close> stops
  with a NameError at \<open>self.rewards_mode = rewards_mode\<close>, the parameter being \<open>costs_mode\<close>.
\<close>

theorem EnvironmentModel_init_raises:
  "EnvironmentModel_init ''left'' 0 ''penalty'' (\<lambda>task. Inr (PyObj ''ReferencePath''))
     = Inl (NameError ''rewards_mode'')"
  by (simp add: EnvironmentModel_init_NameError)

subsection \<open>Coordinate conversion\<close>

lemma length_ego_tile: "length (ego_tile ego_x ego_y n) = 4 * n"
  by (induction n) (simp_all add: ego_tile_def)

lemma map2_sub_add:
  "length xs = length ys \<Longrightarrow> map2 (\<lambda>v e. v - e) (map2 (\<lambda>v e. v + e) xs ys) ys = (xs :: real list)"
  by (induction xs ys rule: list_induct2) auto

text \<open>An observation row is its ego and tracking columns \<open>p\<close> followed by its vehicle
  columns \<open>vs\<close>; the slices and both conversions on a row of that shape.\<close>

lemma split_obses_append:
  assumes "length p = ego_info_dim + per_tracking_info_dim * (num_future_data + 1)"
  shows "split_obses num_future_data (p @ vs) = (take 6 p, drop 6 p, vs)"
  using assms
  by (simp add: split_obses_def ego_info_dim_def per_tracking_info_dim_def)

lemma convert_vehs_to_abso_append:
  assumes "length p = ego_info_dim + per_tracking_info_dim * (num_future_data + 1)"
    and "length vs = per_veh_info_dim * V"
  shows "convert_vehs_to_abso num_future_data (p @ vs) =
           Inr (p @ map2 (\<lambda>v e. v + e) vs (ego_tile (p ! 3) (p ! 4) V))"
proof -
  have "6 \<le> length p"
    using assms(1) by (simp add: ego_info_dim_def)
  then show ?thesis
    using assms(2)
    by (simp add: convert_vehs_to_abso_def split_obses_append [OF assms(1)] Let_def
        np_broadcast2_def length_ego_tile per_veh_info_dim_def)
qed

lemma convert_vehs_to_rela_append:
  assumes "length p = ego_info_dim + per_tracking_info_dim * (num_future_data + 1)"
    and "length vs = per_veh_info_dim * V"
  shows "convert_vehs_to_rela num_future_data (p @ vs) =
           Inr (p @ map2 (\<lambda>v e. v - e) vs (ego_tile (p ! 3) (p ! 4) V))"
proof -
  have "6 \<le> length p"
    using assms(1) by (simp add: ego_info_dim_def)
  then show ?thesis
    using assms(2)
    by (simp add: convert_vehs_to_rela_def split_obses_append [OF assms(1)] Let_def
        np_broadcast2_def length_ego_tile per_veh_info_dim_def)
qed

text \<open>
  Claim C4. For every observation row made of the 6 ego columns, the \<open>3 * (F + 1)\<close> tracking
  columns and 4 columns per vehicle, \<open>convert_vehs_to_abso\<close> returns, \<open>convert_vehs_to_rela\<close>
  of its result is the row itself, and both conversions return the ego and tracking columns
  they were given. Over the reals the round trip is exact.
\<close>

theorem convert_vehs_round_trip:
  assumes "length obs =
             ego_info_dim + per_tracking_info_dim * (num_future_data + 1) + per_veh_info_dim * V"
  shows "\<exists>abso rela.
           convert_vehs_to_abso num_future_data obs = Inr abso
           \<and> convert_vehs_to_rela num_future_data abso = Inr obs
           \<and> convert_vehs_to_rela num_future_data obs = Inr rela
           \<and> take (ego_info_dim + per_tracking_info_dim * (num_future_data + 1)) abso
               = take (ego_info_dim + per_tracking_info_dim * (num_future_data + 1)) obs
           \<and> take (ego_info_dim + per_tracking_info_dim * (num_future_data + 1)) rela
               = take (ego_info_dim + per_tracking_info_dim * (num_future_data + 1)) obs"
proof -
  define K where "K = ego_info_dim + per_tracking_info_dim * (num_future_data + 1)"
  define p where "p = take K obs"
  define vs where "vs = drop K obs"
  define ego where "ego = ego_tile (p ! 3) (p ! 4) V"
  have obs: "obs = p @ vs"
    by (simp add: p_def vs_def)
  have lp: "length p = ego_info_dim + per_tracking_info_dim * (num_future_data + 1)"
    using assms by (simp add: p_def K_def)
  have lpK: "length p = K"
    using lp by (simp add: K_def)
  have lv: "length vs = per_veh_info_dim * V"
    using assms by (simp add: vs_def K_def)
  have le: "length ego = length vs"
    by (simp add: ego_def length_ego_tile lv per_veh_info_dim_def)
  have abso: "convert_vehs_to_abso num_future_data obs = Inr (p @ map2 (\<lambda>v e. v + e) vs ego)"
    unfolding obs ego_def by (rule convert_vehs_to_abso_append [OF lp lv])
  have rela: "convert_vehs_to_rela num_future_data obs = Inr (p @ map2 (\<lambda>v e. v - e) vs ego)"
    unfolding obs ego_def by (rule convert_vehs_to_rela_append [OF lp lv])
  have "length (map2 (\<lambda>v e. v + e) vs ego) = per_veh_info_dim * V"
    using le lv by simp
  from convert_vehs_to_rela_append [OF lp this]
  have again: "convert_vehs_to_rela num_future_data (p @ map2 (\<lambda>v e. v + e) vs ego) = Inr obs"
    using le by (simp add: ego_def [symmetric] map2_sub_add obs)
  have "take K (p @ map2 (\<lambda>v e. v + e) vs ego) = take K obs"
    and "take K (p @ map2 (\<lambda>v e. v - e) vs ego) = take K obs"
    using lpK by (simp_all add: obs)
  with abso rela again show ?thesis
    unfolding K_def by blast
qed

theorem convert_vehs_round_trip_witness:
  "\<exists>abso rela.
     convert_vehs_to_abso 0 [8, 0, 0, 1, 2, 90, 0, 0, 0, 10, 20, 5, 180] = Inr abso
     \<and> convert_vehs_to_rela 0 abso = Inr [8, 0, 0, 1, 2, 90, 0, 0, 0, 10, 20, 5, 180]
     \<and> convert_vehs_to_rela 0 [8, 0, 0, 1, 2, 90, 0, 0, 0, 10, 20, 5, 180] = Inr rela
     \<and> take 9 abso = [8, 0, 0, 1, 2, 90, 0, 0, 0]
     \<and> take 9 rela = [8, 0, 0, 1, 2, 90, 0, 0, 0]"
  using convert_vehs_round_trip [of "[8, 0, 0, 1, 2, 90, 0, 0, 0, 10, 20, 5, 180]" 0 1]
  by (simp add: ego_info_dim_def per_tracking_info_dim_def per_veh_info_dim_def)

subsection \<open>Rewards\<close>

text \<open>One pair of points adds \<open>3.5\<^sup>2\<close> to the training sum and \<open>-2.5\<close> to the real one, the
  distance being 0; a vehicle has four pairs, so the loop adds 49 and \<open>-10\<close> per vehicle.\<close>

lemma veh2veh_pair_zero: "veh2veh_pair 0 (t, r) = (t + 49 / 4, r - 5 / 2)"
  by (simp add: veh2veh_pair_def power2_eq_square)

lemma veh2veh_loop_value:
  assumes "\<forall>i \<in> set idxs. (i + 1) * per_veh_info_dim \<le> length veh_infos"
  shows "veh2veh_loop c [ego_front, ego_rear] 0 veh_infos idxs (t, r) =
           Inr (t + 49 * real (length idxs), r - 10 * real (length idxs))"
  using assms
proof (induction idxs arbitrary: t r)
  case Nil
  show ?case by simp
next
  case (Cons i idxs)
  have "(i + 1) * per_veh_info_dim \<le> length veh_infos"
    using Cons.prems by simp
  then have len: "length (take per_veh_info_dim (drop (i * per_veh_info_dim) veh_infos)) = 4"
    by (simp add: per_veh_info_dim_def)
  have IH: "veh2veh_loop c [ego_front, ego_rear] 0 veh_infos idxs (t', r') =
           Inr (t' + 49 * real (length idxs), r' - 10 * real (length idxs))" for t' r'
    using Cons.IH Cons.prems by simp
  show ?case
    unfolding veh2veh_loop.simps Let_def len
    by (simp add: veh2veh_pair_zero IH algebra_simps)
qed

lemma veh2road_valid:
  assumes "task = ''left'' \<or> task = ''straight'' \<or> task = ''right''"
  shows "\<exists>t r. veh2road task c ego_points = Inr (t, r)"
  using assms by (auto simp add: veh2road_def intro: prod.exhaust)

text \<open>What \<open>compute_rewards\<close> returns on a row of the expected shape with at least one
  vehicle: the vehicle terms depend on the number of vehicles only.\<close>

lemma compute_rewards_value:
  assumes "length obses =
             ego_info_dim + per_tracking_info_dim * (num_future_data + 1) + per_veh_info_dim * V"
    and "0 < V" and "2 \<le> length actions"
    and "task = ''left'' \<or> task = ''straight'' \<or> task = ''right''"
  shows "\<exists>t r. compute_rewards task num_future_data c obses actions =
           Inr \<lparr>rewards =
                  0.05 * - ((obses ! 8)\<^sup>2) + 0.8 * - ((obses ! 6)\<^sup>2)
                  + 30 * - ((obses ! 7 * pi / 180)\<^sup>2) + 0.02 * - ((obses ! 2)\<^sup>2)
                  + 5 * - ((actions ! 0)\<^sup>2) + 0.05 * - ((actions ! 1)\<^sup>2),
                punish_term_for_training = 49 * real V + t,
                real_punish_term = - 10 * real V + r,
                veh2veh4real = - 10 * real V,
                veh2road4real = r\<rparr>"
proof -
  define K where "K = ego_info_dim + per_tracking_info_dim * (num_future_data + 1)"
  define p where "p = take K obses"
  define vs where "vs = drop K obses"
  define abso where "abso = map2 (\<lambda>v e. v + e) vs (ego_tile (p ! 3) (p ! 4) V)"
  have obs: "obses = p @ vs"
    by (simp add: p_def vs_def)
  have lp: "length p = ego_info_dim + per_tracking_info_dim * (num_future_data + 1)"
    using assms(1) by (simp add: p_def K_def)
  have lv: "length vs = per_veh_info_dim * V"
    using assms(1) by (simp add: vs_def K_def)
  have la: "length abso = 4 * V"
    using lv by (simp add: abso_def length_ego_tile per_veh_info_dim_def)
  have lp9: "9 \<le> length p"
    using lp by (simp add: ego_info_dim_def per_tracking_info_dim_def)
  have conv: "convert_vehs_to_abso num_future_data obses = Inr (p @ abso)"
    unfolding obs abso_def by (rule convert_vehs_to_abso_append [OF lp lv])
  have split: "split_obses num_future_data (p @ abso) = (take 6 p, drop 6 p, abso)"
    by (rule split_obses_append [OF lp])
  have "\<forall>i \<in> set [0..<V]. (i + 1) * per_veh_info_dim \<le> length abso"
    using la by (simp add: per_veh_info_dim_def)
  from veh2veh_loop_value [OF this]
  have loop: "veh2veh_loop c [ego_front, ego_rear] 0 abso [0..<V] (0, 0) =
                Inr (49 * real V, - 10 * real V)" for ego_front ego_rear
    by simp
  define ego_points where
    "ego_points = [front_points ((L c - W c) / 2) (p ! 3) (p ! 4) (p ! 5),
                   rear_points ((L c - W c) / 2) (p ! 3) (p ! 4) (p ! 5)]"
  obtain t r where road: "veh2road task c ego_points = Inr (t, r)"
    using veh2road_valid [OF assms(4)] by blast
  have ne: "abso \<noteq> []"
    using la assms(2) by auto
  have lt: "\<not> length p - 6 < 3"
    using lp9 by simp
  have nth: "obses ! 2 = p ! 2" "obses ! 6 = p ! 6" "obses ! 7 = p ! 7" "obses ! 8 = p ! 8"
    using lp9 by (simp_all add: obs nth_append)
  have "compute_rewards task num_future_data c obses actions =
          Inr \<lparr>rewards =
                 0.05 * - ((p ! 8)\<^sup>2) + 0.8 * - ((p ! 6)\<^sup>2)
                 + 30 * - ((p ! 7 * pi / 180)\<^sup>2) + 0.02 * - ((p ! 2)\<^sup>2)
                 + 5 * - ((actions ! 0)\<^sup>2) + 0.05 * - ((actions ! 1)\<^sup>2),
               punish_term_for_training = 49 * real V + t,
               real_punish_term = - 10 * real V + r,
               veh2veh4real = - 10 * real V,
               veh2road4real = r\<rparr>"
    using assms(3) lp9 ne lt road
    by (simp add: compute_rewards_def conv split Let_def la loop per_veh_info_dim_def
        ego_points_def)
  then show ?thesis
    unfolding nth by blast
qed

text \<open>
  Claim C1 says that the vehicle-to-vehicle penalties are zero when every pair of bumper
  points is further apart than 3.5 m (2.5 m), the comparison using the distance of the
  pair. On the row below the ego vehicle is at the origin and the only other vehicle 100 m
  east and 100 m north of it, every bumper point of the one 100 m north of every bumper
  point of the other: the training penalty is 49 and the real one \<open>-10\<close>, four times
  \<open>3.5\<^sup>2\<close> and \<open>-2.5\<close>, the distance compared being the constant 0.
\<close>

theorem compute_rewards_far_vehicle:
  "compute_rewards ''straight'' 0 utils_example
     [8, 0, 0, 0, 0, 0, 0, 0, 0, 100, 100, 5, 0] [0, 0]
     = Inr \<lparr>rewards = 0, punish_term_for_training = 49, real_punish_term = - 10,
            veh2veh4real = - 10, veh2road4real = 0\<rparr>
   \<and> snd (front_points ((L utils_example - W utils_example) / 2) 0 0 0) = 0
   \<and> snd (rear_points ((L utils_example - W utils_example) / 2) 0 0 0) = 0
   \<and> snd (front_points ((L utils_example - W utils_example) / 2) 100 100 0) = 100
   \<and> snd (rear_points ((L utils_example - W utils_example) / 2) 100 100 0) = 100"
  by (simp add: compute_rewards_def convert_vehs_to_abso_def split_obses_def ego_info_dim_def
      per_tracking_info_dim_def per_veh_info_dim_def np_broadcast2_def ego_tile_def Let_def
      veh2veh_pair_def veh2road_def veh2road_straight_def sq_if_def front_points_def
      rear_points_def utils_example_def upt_rec power2_eq_square)

lemma weighted_negated_squares:
  fixes dv dy dphi yaw st ax :: real
  assumes "0 \<le> dv" and "0 \<le> dy" and "0 \<le> dphi" and "0 \<le> yaw" and "0 \<le> st" and "0 \<le> ax"
  shows "0.05 * - dv + 0.8 * - dy + 30 * - dphi + 0.02 * - yaw + 5 * - st + 0.05 * - ax \<le> 0
         \<and> 0.05 * - dv + 0.8 * - dy + 30 * - dphi + 0.02 * - yaw + 5 * - st + 0.05 * - ax
             = - (0.05 * dv + 0.8 * dy + 30 * dphi + 0.02 * yaw + 5 * st + 0.05 * ax)"
  using assms by simp

text \<open>
  Claim C10. For every observation row of the expected shape with at least one vehicle,
  every action row and every task, \<open>compute_rewards\<close> returns and its first value is
  nonpositive: it is minus the sum of the squared speed, lateral and heading deviations, yaw
  rate, steering and acceleration with the weights 0.05, 0.8, 30, 0.02, 5 and 0.05, and no
  vehicle or road term enters it.
\<close>

theorem compute_rewards_nonpositive:
  assumes "length obses =
             ego_info_dim + per_tracking_info_dim * (num_future_data + 1) + per_veh_info_dim * V"
    and "0 < V" and "2 \<le> length actions"
    and "task = ''left'' \<or> task = ''straight'' \<or> task = ''right''"
  shows "\<exists>out. compute_rewards task num_future_data c obses actions = Inr out
           \<and> rewards out \<le> 0
           \<and> rewards out =
               - (0.05 * (obses ! 8)\<^sup>2 + 0.8 * (obses ! 6)\<^sup>2 + 30 * (obses ! 7 * pi / 180)\<^sup>2
                  + 0.02 * (obses ! 2)\<^sup>2 + 5 * (actions ! 0)\<^sup>2 + 0.05 * (actions ! 1)\<^sup>2)"
proof -
  define R where
    "R = 0.05 * - ((obses ! 8)\<^sup>2) + 0.8 * - ((obses ! 6)\<^sup>2)
           + 30 * - ((obses ! 7 * pi / 180)\<^sup>2) + 0.02 * - ((obses ! 2)\<^sup>2)
           + 5 * - ((actions ! 0)\<^sup>2) + 0.05 * - ((actions ! 1)\<^sup>2)"
  from compute_rewards_value [OF assms, of c]
  obtain out where val: "compute_rewards task num_future_data c obses actions = Inr out"
    and out: "rewards out = R"
    unfolding R_def by force
  have "R \<le> 0
        \<and> R = - (0.05 * (obses ! 8)\<^sup>2 + 0.8 * (obses ! 6)\<^sup>2 + 30 * (obses ! 7 * pi / 180)\<^sup>2
                 + 0.02 * (obses ! 2)\<^sup>2 + 5 * (actions ! 0)\<^sup>2 + 0.05 * (actions ! 1)\<^sup>2)"
    unfolding R_def by (rule weighted_negated_squares) simp_all
  with val out show ?thesis
    by simp
qed

theorem compute_rewards_nonpositive_witness:
  "\<exists>out. compute_rewards ''left'' 0 utils_example
            [8, 0, 1, 0, 0, 90, 1, 0, 2, 10, 20, 5, 180] [1, 2] = Inr out
         \<and> rewards out \<le> 0
         \<and> rewards out = - (311 / 50)"
  using compute_rewards_nonpositive
    [of "[8, 0, 1, 0, 0, 90, 1, 0, 2, 10, 20, 5, 180]" 0 1 "[1, 2]" "''left''" utils_example]
  by (simp add: ego_info_dim_def per_tracking_info_dim_def per_veh_info_dim_def)


section \<open>Properties of ReferencePath\<close>

text \<open>
  Claim C3, as stated, fails: a raw difference of \<open>-180\<close> is returned as it is, outside the
  half-open interval, and a raw difference of 900 is wrapped to 540, which a second
  application wraps again.
\<close>

theorem deal_with_phi_diff_counterexample:
  "\<not> (- 180 < deal_with_phi_diff (- 180))
   \<and> deal_with_phi_diff (deal_with_phi_diff 900) \<noteq> deal_with_phi_diff 900"
  by (simp add: deal_with_phi_diff_def Let_def)

text \<open>
  Claim C3, amended. For every input, \<open>deal_with_phi_diff\<close> follows the rule: above 180
  subtract 360, below \<open>-180\<close> add 360, otherwise unchanged. For a raw difference in
  \<open>[-540, 540]\<close> the result lies in the closed interval \<open>[-180, 180]\<close> and a second application
  changes nothing; the result is above \<open>-180\<close> unless the raw difference is \<open>-180\<close> or \<open>-540\<close>.
\<close>

theorem deal_with_phi_diff_wraps:
  "deal_with_phi_diff d = (if d > 180 then d - 360 else if d < - 180 then d + 360 else d)
   \<and> (- 540 \<le> d \<and> d \<le> 540 \<longrightarrow>
        - 180 \<le> deal_with_phi_diff d \<and> deal_with_phi_diff d \<le> 180
        \<and> deal_with_phi_diff (deal_with_phi_diff d) = deal_with_phi_diff d)
   \<and> (- 540 < d \<and> d \<le> 540 \<and> d \<noteq> - 180 \<longrightarrow> - 180 < deal_with_phi_diff d)"
  by (simp add: deal_with_phi_diff_def Let_def)

theorem deal_with_phi_diff_wraps_witness:
  "deal_with_phi_diff 270 = - 90 \<and> - 180 \<le> deal_with_phi_diff 270
   \<and> deal_with_phi_diff 270 \<le> 180
   \<and> deal_with_phi_diff (deal_with_phi_diff 270) = deal_with_phi_diff 270
   \<and> - 180 < deal_with_phi_diff 270"
  using deal_with_phi_diff_wraps [of 270] by (simp add: deal_with_phi_diff_def)


text \<open>The look-ahead on a path of equally long arrays with at least one sample.\<close>

lemma indexs2points_clamped:
  assumes "length xs = length ys" and "length ys = length phis" and "0 < length xs"
    and "i \<le> int (length xs) - 2"
  shows "indexs2points (xs, ys, phis) i = Inr (point_at (xs, ys, phis) (nat (max 0 i)))"
  using assms
  by (simp add: indexs2points_def np_getitem_def bind_err_def point_at_def Let_def max_def)

lemma clamp_step:
  "min (min (i + 80) l + 80 * (int j + 1)) l = min (i + 80 * (int (Suc j) + 1)) (l :: int)"
  by (simp add: min_def)

lemma future_loop_points:
  assumes "length xs = length ys" and "length ys = length phis" and "0 < length xs"
  shows "future_loop (xs, ys, phis) current_indexs k =
           Inr (map (\<lambda>j. point_at (xs, ys, phis)
                    (nat (max 0 (min (current_indexs + 80 * (int j + 1)) (int (length xs) - 2)))))
                  [0..<k])"
proof (induction k arbitrary: current_indexs)
  case 0
  show ?case by simp
next
  case (Suc k)
  define l where "l = int (length xs) - 2"
  define i where "i = min (current_indexs + 80) l"
  define f where
    "f = (\<lambda>c j. point_at (xs, ys, phis) (nat (max 0 (min (c + 80 * (int j + 1)) l))))"
  have i: "(if current_indexs + 80 \<ge> int (length xs) - 2 then int (length xs) - 2
            else current_indexs + 80) = i"
    by (simp add: i_def l_def min_def)
  have "i \<le> int (length xs) - 2"
    by (simp add: i_def l_def)
  from indexs2points_clamped [OF assms this]
  have pt: "indexs2points (xs, ys, phis) i = Inr (point_at (xs, ys, phis) (nat (max 0 i)))" .
  have step: "future_loop (xs, ys, phis) current_indexs (Suc k) =
                bind_err (indexs2points (xs, ys, phis) i) (\<lambda>p.
                bind_err (future_loop (xs, ys, phis) i k) (\<lambda>ps. Inr (p # ps)))"
    by (simp only: future_loop.simps Let_def fst_conv i)
  have rest: "future_loop (xs, ys, phis) i k = Inr (map (f i) [0..<k])"
    unfolding f_def l_def by (rule Suc.IH)
  have hd: "point_at (xs, ys, phis) (nat (max 0 i)) = f current_indexs 0"
    by (simp add: f_def i_def)
  have tl: "f i j = f current_indexs (Suc j)" for j
    unfolding f_def i_def by (simp only: clamp_step)
  have "future_loop (xs, ys, phis) current_indexs (Suc k)
          = Inr (f current_indexs 0 # map (\<lambda>j. f current_indexs (Suc j)) [0..<k])"
    unfolding step by (simp add: pt rest bind_err_def hd tl)
  also have "\<dots> = Inr (map (f current_indexs) [0..<Suc k])"
    by (simp only: map_upt_Suc)
  finally show ?case
    unfolding f_def l_def .
qed

text \<open>
  Claim C8, as stated, fails: on a path of three samples, one look-ahead step from index 0
  advances to 80, past the end, and returns the sample at index 1, not the final sample at
  index 2.
\<close>

theorem future_n_data_counterexample:
  "future_n_data ([0, 1, 2], [10, 11, 12], [20, 21, 22]) 0 1 = Inr [(1, 11, 21)]
   \<and> point_at ([0, 1, 2], [10, 11, 12], [20, 21, 22]) 2 = (2, 12, 22)
   \<and> future_n_data ([0, 1, 2], [10, 11, 12], [20, 21, 22]) 0 1
       \<noteq> Inr [point_at ([0, 1, 2], [10, 11, 12], [20, 21, 22]) 2]"
  by (simp add: future_n_data_def indexs2points_def np_getitem_def bind_err_def point_at_def
      Let_def)

text \<open>
  Claim C8, amended. On a path with at least one sample, for every starting index and every
  \<open>n\<close>, \<open>future_n_data\<close> returns \<open>n\<close> points (none for a negative \<open>n\<close>); the point of step
  \<open>j + 1\<close> is the sample at index \<open>max 0 (min (index + 80 * (j + 1)) (len - 2))\<close>. No such index
  exceeds the last valid sample \<open>len - 1\<close>, and an advanced index at or past \<open>len - 2\<close> yields
  the sample at \<open>len - 2\<close>, the one before the final sample.
\<close>

theorem future_n_data_points:
  assumes "length xs = length ys" and "length ys = length phis" and "0 < length xs"
  shows "future_n_data (xs, ys, phis) current_indexs n =
           Inr (map (\<lambda>j. point_at (xs, ys, phis)
                    (nat (max 0 (min (current_indexs + 80 * (int j + 1)) (int (length xs) - 2)))))
                  [0..<nat n])
         \<and> (\<forall>j. nat (max 0 (min (current_indexs + 80 * (int j + 1)) (int (length xs) - 2)))
                  \<le> length xs - 1)"
  using assms by (auto simp add: future_n_data_def future_loop_points)

theorem future_n_data_points_witness:
  "future_n_data ([0, 1, 2], [10, 11, 12], [20, 21, 22]) (- 100) 2
     = Inr [(0, 10, 20), (1, 11, 21)]"
  using future_n_data_points [of "[0, 1, 2]" "[10, 11, 12]" "[20, 21, 22]" "- 100" 2]
  by (simp add: point_at_def numeral_2_eq_2)

end
